theory Spec2Isabelle
  imports Main "HOL-Library.Sublist"
begin

section \<open>Story records\<close>

text \<open>
  A story record is the Python dictionary \<^verbatim>\<open>story_data\<close> of the Jira service and the
  JSON object \<^verbatim>\<open>{ story, acceptance_criteria }\<close> of the front end. Both keys are read with
  \<^verbatim>\<open>story_data.get(key, default)\<close>, so each field is optional: \<open>None\<close> is a missing key.
  A string is the list of its characters, which is what \<^verbatim>\<open>len\<close> counts.
\<close>

record story_data =
  story :: "string option"
  acceptance_criteria :: "string list option"

text \<open>\<^verbatim>\<open>story_data.get("story", "")\<close> and \<^verbatim>\<open>story_data.get("acceptance_criteria", [])\<close>.\<close>

definition get_story :: "story_data \<Rightarrow> string" where
  "get_story sd = (case story sd of None \<Rightarrow> [] | Some s \<Rightarrow> s)"

definition get_criteria :: "story_data \<Rightarrow> string list" where
  "get_criteria sd = (case acceptance_criteria sd of None \<Rightarrow> [] | Some cs \<Rightarrow> cs)"

section \<open>Story point estimation\<close>

text \<open>
  \<^verbatim>\<open>_estimate_story_points\<close>: base of 3 points, a step on the number of acceptance
  criteria, two independent steps on the length of the story, capped at 13. Python integers
  are unbounded, hence \<open>int\<close>.
\<close>

definition estimate_story_points :: "story_data \<Rightarrow> int" where
  "estimate_story_points sd =
     (let base_points = 3;
          criteria_count = int (length (get_criteria sd));
          points = (if criteria_count \<le> 2 then base_points
                    else if criteria_count \<le> 4 then base_points + 2
                    else if criteria_count \<le> 6 then base_points + 4
                    else base_points + 6);
          points = (if int (length (get_story sd)) > 200 then points + 1 else points);
          points = (if int (length (get_story sd)) > 400 then points + 1 else points)
      in min points 13)"

text \<open>The bucket and the bonus as the specification words them.\<close>

definition bucket :: "int \<Rightarrow> int" where
  "bucket c = (if c \<le> 2 then 0 else if 3 \<le> c \<and> c \<le> 4 then 2
               else if 5 \<le> c \<and> c \<le> 6 then 4 else 6)"

definition bonus :: "int \<Rightarrow> int" where
  "bonus l = (if l \<le> 200 then 0 else if 200 < l \<and> l \<le> 400 then 1 else 2)"


section \<open>Classification\<close>

text \<open>
  \<^verbatim>\<open>str.lower()\<close> on the characters HOL has, the code points below 256: the ASCII capitals
  and the Latin-1 capitals (192 to 222, the multiplication sign 215 apart) move up by 32,
  every other character stays.
\<close>

definition lower_char :: "char \<Rightarrow> char" where
  "lower_char c =
     (let n = (of_char c :: nat)
      in if (65 \<le> n \<and> n \<le> 90) \<or> (192 \<le> n \<and> n \<le> 222 \<and> n \<noteq> 215)
         then char_of (n + 32) else c)"

definition lower :: "string \<Rightarrow> string" where
  "lower s = map lower_char s"

text \<open>Python's \<^verbatim>\<open>word in story_text\<close> on strings: \<open>word\<close> occurs as a contiguous piece.\<close>

definition str_in :: "string \<Rightarrow> string \<Rightarrow> bool" where
  "str_in word text = sublist word text"

text \<open>
  \<^verbatim>\<open>_determine_priority\<close>: the story is lowered, the words are taken as they are written.
  The word list is a parameter here; the source writes it in place as \<open>urgent_words\<close>.
\<close>

definition determine_priority_with :: "string list \<Rightarrow> story_data \<Rightarrow> string" where
  "determine_priority_with urgent sd =
     (let story_text = lower (get_story sd)
      in if list_ex (\<lambda>word. str_in word story_text) urgent then ''High'' else ''Medium'')"

definition urgent_words :: "string list" where
  "urgent_words = [''security'', ''login'', ''password'', ''critical'']"

definition determine_priority :: "story_data \<Rightarrow> string" where
  "determine_priority = determine_priority_with urgent_words"

text \<open>
  The priority names of the customization guide, from \<^verbatim>\<open>Lowest\<close> (1) to \<^verbatim>\<open>Highest\<close> (5);
  any other string has rank 0.
\<close>

definition priority_rank :: "string \<Rightarrow> nat" where
  "priority_rank p =
     (if p = ''Highest'' then 5 else if p = ''High'' then 4 else if p = ''Medium'' then 3
      else if p = ''Low'' then 2 else if p = ''Lowest'' then 1 else 0)"

text \<open>\<^verbatim>\<open>_determine_component\<close>: an \<^verbatim>\<open>if\<close>/\<^verbatim>\<open>elif\<close> chain over three word lists.\<close>

definition determine_component :: "story_data \<Rightarrow> string" where
  "determine_component sd =
     (let story_text = lower (get_story sd)
      in if list_ex (\<lambda>word. str_in word story_text) [''login'', ''user'', ''profile'', ''dashboard'']
         then ''User Management''
         else if list_ex (\<lambda>word. str_in word story_text) [''database'', ''data'', ''storage'']
         then ''Database''
         else if list_ex (\<lambda>word. str_in word story_text) [''api'', ''endpoint'', ''service'']
         then ''API''
         else ''General'')"

text \<open>
  The specification's reading of the classifier: a narrative contains a term when some piece
  of it equals the term up to letter case, and the component is the label of the first
  entry of a keyword table that the narrative contains. \<open>component_table\<close> lists the
  keywords of the chain above in the order in which the chain tests them.
\<close>

definition contains_ignoring_case :: "string \<Rightarrow> string \<Rightarrow> bool" where
  "contains_ignoring_case text term = sublist (lower term) (lower text)"

definition component_table :: "(string \<times> string) list" where
  "component_table =
     [(''login'', ''User Management''), (''user'', ''User Management''),
      (''profile'', ''User Management''), (''dashboard'', ''User Management''),
      (''database'', ''Database''), (''data'', ''Database''), (''storage'', ''Database''),
      (''api'', ''API''), (''endpoint'', ''API''), (''service'', ''API'')]"

fun first_match_label :: "(string \<times> string) list \<Rightarrow> string \<Rightarrow> string \<Rightarrow> string" where
  "first_match_label [] dflt text = dflt"
| "first_match_label ((keyword, label) # rest) dflt text =
     (if contains_ignoring_case text keyword then label else first_match_label rest dflt text)"

section \<open>JavaScript values of the front end\<close>

text \<open>
  The values the front end handles: what \<^verbatim>\<open>JSON.parse\<close> yields, and \<^verbatim>\<open>undefined\<close>.
  A number is a safe integer, of magnitude at most \<open>2\<^sup>5\<^sup>3 - 1\<close> (\<^verbatim>\<open>Number.MAX_SAFE_INTEGER\<close>):
  these are the integers that a double holds exactly and that \<^verbatim>\<open>String\<close> prints with all
  their digits. Fractions, larger numbers, \<^verbatim>\<open>NaN\<close> and the infinities are not values of
  this model. An object is the list of its properties, the first binding of a name being
  the one that is read.
\<close>

typedef safe_integer = "{i :: int. - 9007199254740991 \<le> i \<and> i \<le> 9007199254740991}"
  by (intro exI [of _ 0]) simp

datatype js_value =
    JUndefined
  | JNull
  | JBool bool
  | JNumber safe_integer
  | JString string
  | JArray "js_value list"
  | JObject "(string \<times> js_value) list"

fun typeof :: "js_value \<Rightarrow> string" where
  "typeof JUndefined = ''undefined''"
| "typeof JNull = ''object''"
| "typeof (JBool b) = ''boolean''"
| "typeof (JNumber n) = ''number''"
| "typeof (JString s) = ''string''"
| "typeof (JArray xs) = ''object''"
| "typeof (JObject fs) = ''object''"

text \<open>Truthiness, as \<^verbatim>\<open>||\<close>, \<^verbatim>\<open>&&\<close>, \<^verbatim>\<open>!\<close> and \<^verbatim>\<open>if\<close> test it.\<close>

fun truthy :: "js_value \<Rightarrow> bool" where
  "truthy JUndefined = False"
| "truthy JNull = False"
| "truthy (JBool b) = b"
| "truthy (JNumber n) = (Rep_safe_integer n \<noteq> 0)"
| "truthy (JString s) = (s \<noteq> [])"
| "truthy (JArray xs) = True"
| "truthy (JObject fs) = True"

definition js_or :: "js_value \<Rightarrow> js_value \<Rightarrow> js_value" where
  "js_or a b = (if truthy a then a else b)"

text \<open>
  A number as a template literal prints it, in decimal: the digits are produced from the
  last one backwards, each put in front of those already there.
\<close>

definition digit_char :: "nat \<Rightarrow> char" where
  "digit_char d = char_of (of_char (CHR ''0'') + d)"

fun decimal_onto :: "nat \<Rightarrow> string \<Rightarrow> string" where
  "decimal_onto n later =
     (if n < 10 then digit_char n # later
      else decimal_onto (n div 10) (digit_char (n mod 10) # later))"

definition decimal :: "nat \<Rightarrow> string" where
  "decimal n = decimal_onto n []"

definition decimal_int :: "int \<Rightarrow> string" where
  "decimal_int i = (if i < 0 then CHR ''-'' # decimal (nat (- i)) else decimal (nat i))"

text \<open>
  \<^verbatim>\<open>String(v)\<close>, which \<^verbatim>\<open>new Error(v)\<close> applies to its argument: an array joins its
  elements with commas, \<^verbatim>\<open>null\<close> and \<^verbatim>\<open>undefined\<close> elements printing as nothing, and an
  object prints as \<^verbatim>\<open>[object Object]\<close>.
\<close>

fun js_to_string :: "js_value \<Rightarrow> string"
  and js_join :: "js_value list \<Rightarrow> string" where
  "js_to_string JUndefined = ''undefined''"
| "js_to_string JNull = ''null''"
| "js_to_string (JBool b) = (if b then ''true'' else ''false'')"
| "js_to_string (JNumber n) = decimal_int (Rep_safe_integer n)"
| "js_to_string (JString s) = s"
| "js_to_string (JArray xs) = js_join xs"
| "js_to_string (JObject fs) = ''[object Object]''"
| "js_join [] = []"
| "js_join (x # xs) =
     (if x = JUndefined \<or> x = JNull then [] else js_to_string x)
     @ (if xs = [] then [] else '','' @ js_join xs)"

text \<open>What a failed statement throws: an \<^verbatim>\<open>Error\<close> made by the code, or the engine's
  \<^verbatim>\<open>TypeError\<close>; each carries its message.\<close>

datatype js_thrown = Error string | TypeError string

fun thrown_message :: "js_thrown \<Rightarrow> string" where
  "thrown_message (Error m) = m"
| "thrown_message (TypeError m) = m"

text \<open>
  Reading a property that no built-in defines, such as \<^verbatim>\<open>data.detail\<close>: a
  \<^verbatim>\<open>TypeError\<close> on \<^verbatim>\<open>null\<close> and \<^verbatim>\<open>undefined\<close>, the bound value on an object that has
  the property, \<^verbatim>\<open>undefined\<close> otherwise.
\<close>

definition quoted :: "string \<Rightarrow> string" where
  "quoted name = [CHR 0x27] @ name @ [CHR 0x27]"

fun get_prop :: "js_value \<Rightarrow> string \<Rightarrow> js_thrown + js_value" where
  "get_prop JUndefined name =
     Inl (TypeError (''Cannot read properties of undefined (reading '' @ quoted name @ '')''))"
| "get_prop JNull name =
     Inl (TypeError (''Cannot read properties of null (reading '' @ quoted name @ '')''))"
| "get_prop (JObject fs) name =
     Inr (case map_of fs name of None \<Rightarrow> JUndefined | Some v \<Rightarrow> v)"
| "get_prop v name = Inr JUndefined"

section \<open>The story list component\<close>

text \<open>
  \<^verbatim>\<open>UserStoryList\<close> receives \<^verbatim>\<open>userStories\<close> in the old format (an array of strings) or
  the new one (an array of objects) and derives \<^verbatim>\<open>stories\<close>, which it displays and hands
  to \<^verbatim>\<open>JiraExport\<close>. The prop is \<open>None\<close> when it is not given (\<^verbatim>\<open>undefined\<close>): the test
  is then falsy and \<^verbatim>\<open>userStories.map\<close> throws.
\<close>

definition isNewFormat :: "js_value list option \<Rightarrow> bool" where
  "isNewFormat userStories =
     (case userStories of
        None \<Rightarrow> False
      | Some us \<Rightarrow> (case us of [] \<Rightarrow> False | first # _ \<Rightarrow> typeof first = ''object''))"

definition legacy_story :: "js_value \<Rightarrow> js_value" where
  "legacy_story s = JObject [(''story'', s), (''acceptance_criteria'', JArray [])]"

definition user_story_list_stories :: "js_value list option \<Rightarrow> js_thrown + js_value list" where
  "user_story_list_stories userStories =
     (case userStories of
        None \<Rightarrow>
          Inl (TypeError (''Cannot read properties of undefined (reading '' @ quoted ''map'' @ '')''))
      | Some us \<Rightarrow>
          Inr (if isNewFormat userStories then us else map legacy_story us))"

section \<open>The API service of the front end\<close>

text \<open>
  What axios hands to the response interceptor on a failure: the response when the server
  answered with an error status, whether a request was sent, and the error's own message
  (empty when it has none).
\<close>

record http_response =
  status_code :: nat
  response_data :: js_value

record axios_error =
  error_response :: "http_response option"
  error_request :: bool
  error_message :: string

text \<open>
  The rejection handler of \<^verbatim>\<open>api.interceptors.response\<close>. \<^verbatim>\<open>data.detail\<close> is read in
  every branch of the \<^verbatim>\<open>switch\<close>, so a \<^verbatim>\<open>null\<close> body throws in each of them.
\<close>

definition response_interceptor :: "axios_error \<Rightarrow> js_thrown" where
  "response_interceptor err =
     (case error_response err of
        Some resp \<Rightarrow>
          (case get_prop (response_data resp) ''detail'' of
             Inl type_error \<Rightarrow> type_error
           | Inr detail \<Rightarrow>
               (if status_code resp = 400
                then Error (js_to_string (js_or detail (JString ''Bad request'')))
                else if status_code resp = 404
                then Error (js_to_string (js_or detail (JString ''Resource not found'')))
                else if status_code resp = 500
                then Error (js_to_string (js_or detail (JString ''Internal server error'')))
                else Error (js_to_string (js_or detail
                       (JString (''HTTP '' @ decimal (status_code resp) @ '' error''))))))
      | None \<Rightarrow>
          (if error_request err
           then Error ''No response from server. Please check your connection.''
           else Error (if error_message err \<noteq> [] then error_message err
                       else ''An unexpected error occurred'')))"

text \<open>
  The network: the server behind it, and the requests sent so far. A transport answers a
  request with the response body or with the failure axios reports, and moves the server on.
\<close>

record ('n, 'b) net =
  server :: 'n
  sent :: "(string \<times> 'b) list"

type_synonym ('n, 'b, 'r) transport = "string \<Rightarrow> 'b \<Rightarrow> 'n \<Rightarrow> (axios_error + 'r) \<times> 'n"

text \<open>\<^verbatim>\<open>api.post(url, body)\<close> followed by \<^verbatim>\<open>response.data\<close>, through the interceptor.\<close>

definition api_post ::
  "('n, 'b, 'r) transport \<Rightarrow> string \<Rightarrow> 'b \<Rightarrow> ('n, 'b) net \<Rightarrow> (js_thrown + 'r) \<times> ('n, 'b) net" where
  "api_post transport url body nw =
     (let (answer, server') = transport url body (server nw);
          nw' = \<lparr>server = server', sent = sent nw @ [(url, body)]\<rparr>
      in (case answer of
            Inl err \<Rightarrow> (Inl (response_interceptor err), nw')
          | Inr body_data \<Rightarrow> (Inr body_data, nw')))"

text \<open>The body of \<^verbatim>\<open>POST /jira/export-stories\<close>.\<close>

record 'a export_request =
  req_stories :: "'a list"
  project_key :: string
  create_epic :: bool
  epic_name :: string

text \<open>
  \<^verbatim>\<open>jiraAPI.exportStories(stories, projectKey, createEpic = true, epicName = "User Stories")\<close>:
  an argument left out (\<open>None\<close>) takes its default.
\<close>

definition export_stories_body ::
  "'a list \<Rightarrow> string \<Rightarrow> bool option \<Rightarrow> string option \<Rightarrow> 'a export_request" where
  "export_stories_body stories projectKey createEpic epicName =
     \<lparr>req_stories = stories,
      project_key = projectKey,
      create_epic = (case createEpic of None \<Rightarrow> True | Some flag \<Rightarrow> flag),
      epic_name = (case epicName of None \<Rightarrow> ''User Stories'' | Some name \<Rightarrow> name)\<rparr>"

definition exportStories ::
  "('n, 'a export_request, 'r) transport \<Rightarrow> 'a list \<Rightarrow> string \<Rightarrow> bool option \<Rightarrow> string option
     \<Rightarrow> ('n, 'a export_request) net \<Rightarrow> (js_thrown + 'r) \<times> ('n, 'a export_request) net" where
  "exportStories transport stories projectKey createEpic epicName nw =
     api_post transport ''/jira/export-stories''
       (export_stories_body stories projectKey createEpic epicName) nw"

section \<open>The export panel\<close>

text \<open>
  The state of \<^verbatim>\<open>JiraExport\<close> that \<^verbatim>\<open>handleExport\<close> reads and writes, and the part of
  the server's answer it reads: \<^verbatim>\<open>export_result.total_exported\<close> and, when
  \<^verbatim>\<open>export_result.epic\<close> is not null, \<^verbatim>\<open>export_result.epic.key\<close>.
\<close>

record export_panel =
  selectedProject :: string
  epicName :: string
  createEpic :: bool
  exporting :: bool
  panel_error :: string
  panel_success :: string

record export_answer =
  answer_total_exported :: nat
  answer_epic_key :: "string option"

text \<open>
  \<^verbatim>\<open>handleExport\<close>. It returns the new state, the network, and the answers handed to
  \<^verbatim>\<open>onExportComplete\<close> when that callback is given.
\<close>

definition handleExport ::
  "('n, 'a export_request, export_answer) transport \<Rightarrow> bool \<Rightarrow> 'a list option \<Rightarrow> export_panel
     \<Rightarrow> ('n, 'a export_request) net
     \<Rightarrow> export_panel \<times> ('n, 'a export_request) net \<times> export_answer list" where
  "handleExport transport onExportComplete userStories panel nw =
     (if selectedProject panel = []
      then (panel\<lparr>panel_error := ''Please select a Jira project''\<rparr>, nw, [])
      else if userStories = None \<or> userStories = Some []
      then (panel\<lparr>panel_error := ''No user stories to export''\<rparr>, nw, [])
      else
        (let started = panel\<lparr>exporting := True, panel_error := [], panel_success := []\<rparr>;
             (outcome, nw') = exportStories transport (the userStories) (selectedProject panel)
                                (Some (createEpic panel)) (Some (epicName panel)) nw
         in (case outcome of
               Inr answer \<Rightarrow>
                 (started\<lparr>panel_success :=
                      ''Successfully exported '' @ decimal (answer_total_exported answer)
                        @ '' stories to Jira!''
                        @ (case answer_epic_key answer of
                             None \<Rightarrow> []
                           | Some k \<Rightarrow> '' Epic created: '' @ k),
                    exporting := False\<rparr>,
                  nw',
                  if onExportComplete then [answer] else [])
             | Inl err \<Rightarrow>
                 (started\<lparr>panel_error :=
                      (if thrown_message err \<noteq> [] then thrown_message err
                       else ''Failed to export stories to Jira''),
                    exporting := False\<rparr>,
                  nw', []))))"

section \<open>The export orchestrator\<close>

text \<open>
  Modelled from the spec: the server side of \<^verbatim>\<open>POST /jira/export-stories\<close> (the Jira
  service with its \<^verbatim>\<open>create_user_story\<close> method, named by the customization guide) is
  not among the sources; only its client above and its guide are. The error taxonomy
  (section 7), the issue reference, the group spec, the outcome and the result (section 3)
  and the ticket client (section 4.3) below follow the specification.
\<close>

datatype error_kind = Validation | Authentication | NotFound | Network | RemoteRejected

record ticket_error =
  kind :: error_kind
  reason :: string

record issue_ref =
  issue_key :: string
  issue_url :: "string option"

record issue_request =
  issue_summary :: string
  issue_description :: string
  issue_priority :: string
  issue_component :: string
  issue_effort :: int
  issue_parent :: "issue_ref option"

record group_spec =
  group_name :: string
  create :: bool

text \<open>
  Modelled from the spec: the two creating operations of the ticket client, section 4.3,
  the other three not being used by an export. Each is one call to the external tracker,
  whose state \<open>'w\<close> it may change, and yields an issue reference or an error of the
  taxonomy.
\<close>

record 'w ticket_client =
  CreateGroup :: "string \<Rightarrow> string \<Rightarrow> 'w \<Rightarrow> (ticket_error + issue_ref) \<times> 'w"
  CreateIssue :: "issue_request \<Rightarrow> 'w \<Rightarrow> (ticket_error + issue_ref) \<times> 'w"

datatype tracker_call =
    CreateGroupCall string string
  | CreateIssueCall issue_request

fun is_create_group :: "tracker_call \<Rightarrow> bool" where
  "is_create_group (CreateGroupCall n d) = True"
| "is_create_group (CreateIssueCall q) = False"

fun is_create_issue :: "tracker_call \<Rightarrow> bool" where
  "is_create_issue (CreateGroupCall n d) = False"
| "is_create_issue (CreateIssueCall q) = True"

text \<open>
  Modelled from the spec: the external tracker as an export sees it, by its state and the
  calls made to it so far, which is what "no call is made" speaks about.
\<close>

record 'w tracker =
  world :: 'w
  calls :: "tracker_call list"

text \<open>
  Modelled from the spec: the per-story outcome of section 3, a success or a failure, each
  with the index of its story in the input.
\<close>

datatype export_outcome =
    Exported nat issue_ref
  | Failed nat error_kind string

fun outcome_index :: "export_outcome \<Rightarrow> nat" where
  "outcome_index (Exported i ref) = i"
| "outcome_index (Failed i k m) = i"

fun is_exported :: "export_outcome \<Rightarrow> bool" where
  "is_exported (Exported i ref) = True"
| "is_exported (Failed i k m) = False"

datatype export_status = AllSucceeded | PartialFailure | GroupFailed

record export_result =
  result_group :: "issue_ref option"
  outcomes :: "export_outcome list"
  total_exported :: nat
  total_failed :: nat
  result_status :: export_status

text \<open>
  Modelled from the spec: the texts of the tickets, which the specification leaves open,
  after the examples of the guide. The parent's description counts the stories; a story's
  description is the narrative followed by its numbered criteria.
\<close>

definition group_description :: "nat \<Rightarrow> string" where
  "group_description n = ''Parent task containing '' @ decimal n @ '' user stories''"

fun numbered :: "nat \<Rightarrow> string list \<Rightarrow> string" where
  "numbered i [] = []"
| "numbered i (c # cs) = decimal i @ ''. '' @ c @ [CHR 0x0A] @ numbered (Suc i) cs"

definition story_description :: "story_data \<Rightarrow> string" where
  "story_description sd =
     ''**User Story:**'' @ [CHR 0x0A] @ get_story sd @ [CHR 0x0A, CHR 0x0A]
       @ ''**Acceptance Criteria:**'' @ [CHR 0x0A] @ numbered 1 (get_criteria sd)"

text \<open>
  Modelled from the spec: step 3 of section 4.4. The request for one story takes its effort
  from the estimator and its priority and component from the classifier, and carries the
  retained group reference.
\<close>

definition issue_request_of :: "issue_ref option \<Rightarrow> story_data \<Rightarrow> issue_request" where
  "issue_request_of grp sd =
     \<lparr>issue_summary = get_story sd,
      issue_description = story_description sd,
      issue_priority = determine_priority sd,
      issue_component = determine_component sd,
      issue_effort = estimate_story_points sd,
      issue_parent = grp\<rparr>"

text \<open>
  Modelled from the spec: the per-story loop of section 4.4, step 3. Stories are taken in
  input order; each outcome is recorded with the story's index, and the loop goes on to the
  next story whatever the outcome.
\<close>

fun export_each ::
  "'w ticket_client \<Rightarrow> issue_ref option \<Rightarrow> nat \<Rightarrow> story_data list \<Rightarrow> 'w tracker
     \<Rightarrow> export_outcome list \<times> 'w tracker" where
  "export_each client grp i [] tr = ([], tr)"
| "export_each client grp i (sd # rest) tr =
     (let request = issue_request_of grp sd;
          (answer, world') = CreateIssue client request (world tr);
          tr' = \<lparr>world = world', calls = calls tr @ [CreateIssueCall request]\<rparr>;
          outcome = (case answer of
                       Inl err \<Rightarrow> Failed i (kind err) (reason err)
                     | Inr ref \<Rightarrow> Exported i ref);
          (later, tr'') = export_each client grp (Suc i) rest tr'
      in (outcome # later, tr''))"

text \<open>Modelled from the spec: steps 4 and 5 of section 4.4, the counts and the status.\<close>

definition aggregate :: "issue_ref option \<Rightarrow> export_outcome list \<Rightarrow> export_result" where
  "aggregate grp outs =
     \<lparr>result_group = grp,
      outcomes = outs,
      total_exported = length (filter is_exported outs),
      total_failed = length (filter (\<lambda>out. \<not> is_exported out) outs),
      result_status = (if list_all is_exported outs then AllSucceeded else PartialFailure)\<rparr>"

text \<open>
  Modelled from the spec: \<open>Export\<close> of section 4.4, whose server-side source is missing.
  Step 1 validates and makes no call; step 2 creates the group when the group spec asks
  for it and returns at once, with no outcomes, when that fails. The early abort on an
  authentication error, which section 7 allows and does not require, and cancellation are
  left out.
\<close>

definition Export ::
  "'w ticket_client \<Rightarrow> story_data list \<Rightarrow> string \<Rightarrow> group_spec option \<Rightarrow> 'w tracker
     \<Rightarrow> (ticket_error + export_result) \<times> 'w tracker" where
  "Export client stories projectKey groupSpec tr =
     (if projectKey = [] then (Inl \<lparr>kind = Validation, reason = ''project key is empty''\<rparr>, tr)
      else if stories = [] then (Inl \<lparr>kind = Validation, reason = ''no stories to export''\<rparr>, tr)
      else
        (case groupSpec of
           None \<Rightarrow>
             (let (outs, tr') = export_each client None 0 stories tr
              in (Inr (aggregate None outs), tr'))
         | Some gs \<Rightarrow>
             (if create gs
              then
                (let description = group_description (length stories);
                     (answer, world') = CreateGroup client (group_name gs) description (world tr);
                     tr' = \<lparr>world = world',
                            calls = calls tr @ [CreateGroupCall (group_name gs) description]\<rparr>
                 in (case answer of
                       Inl err \<Rightarrow>
                         (Inr \<lparr>result_group = None, outcomes = [], total_exported = 0,
                               total_failed = 0, result_status = GroupFailed\<rparr>, tr')
                     | Inr ref \<Rightarrow>
                         (let (outs, tr'') = export_each client (Some ref) 0 stories tr'
                          in (Inr (aggregate (Some ref) outs), tr''))))
              else
                (let (outs, tr') = export_each client None 0 stories tr
                 in (Inr (aggregate None outs), tr')))))"

text \<open>
  Modelled from the spec: the failure of step 2 of section 4.4. A group is asked for and
  \<open>CreateGroup\<close> answers with an error.
\<close>

definition group_step_fails ::
  "'w ticket_client \<Rightarrow> story_data list \<Rightarrow> group_spec option \<Rightarrow> 'w tracker \<Rightarrow> bool" where
  "group_step_fails client stories groupSpec tr =
     (case groupSpec of
        None \<Rightarrow> False
      | Some gs \<Rightarrow>
          create gs \<and>
          isl (fst (CreateGroup client (group_name gs) (group_description (length stories))
                      (world tr))))"

text \<open>
  Modelled from the spec: what section 4.4 says each part of a result is, written
  apart from the loop so that the result of \<open>Export\<close> can be compared with it. The group
  reference is the answer of \<open>CreateGroup\<close> when a group is asked for; the tracker is in
  the state \<open>world_after_group\<close> when the first story is taken, and in the state
  \<open>world_after_issues\<close> of the stories before it when a later one is; the outcome of a
  story is the answer to its own \<open>CreateIssue\<close> call, stamped with its index.
\<close>

definition group_ref_after ::
  "'w ticket_client \<Rightarrow> story_data list \<Rightarrow> group_spec option \<Rightarrow> 'w tracker \<Rightarrow> issue_ref option" where
  "group_ref_after client stories groupSpec tr =
     (case groupSpec of
        None \<Rightarrow> None
      | Some gs \<Rightarrow>
          (if create gs
           then (case fst (CreateGroup client (group_name gs) (group_description (length stories))
                             (world tr)) of
                   Inl err \<Rightarrow> None
                 | Inr ref \<Rightarrow> Some ref)
           else None))"

definition world_after_group ::
  "'w ticket_client \<Rightarrow> story_data list \<Rightarrow> group_spec option \<Rightarrow> 'w tracker \<Rightarrow> 'w" where
  "world_after_group client stories groupSpec tr =
     (case groupSpec of
        None \<Rightarrow> world tr
      | Some gs \<Rightarrow>
          (if create gs
           then snd (CreateGroup client (group_name gs) (group_description (length stories))
                       (world tr))
           else world tr))"

fun world_after_issues ::
  "'w ticket_client \<Rightarrow> issue_ref option \<Rightarrow> story_data list \<Rightarrow> 'w \<Rightarrow> 'w" where
  "world_after_issues client grp [] w = w"
| "world_after_issues client grp (sd # rest) w =
     world_after_issues client grp rest (snd (CreateIssue client (issue_request_of grp sd) w))"

definition outcome_of :: "nat \<Rightarrow> ticket_error + issue_ref \<Rightarrow> export_outcome" where
  "outcome_of i answer =
     (case answer of
        Inl err \<Rightarrow> Failed i (kind err) (reason err)
      | Inr ref \<Rightarrow> Exported i ref)"

text \<open>
  Modelled from the spec: two trackers for scenarios B and C of section 8, and three
  stories to export. The first tracker counts the issue requests it has
  received and rejects the second one with a network error; the second rejects every group
  with an authentication error.
\<close>

definition flaky_client :: "nat ticket_client" where
  "flaky_client =
     \<lparr>CreateGroup = (\<lambda>name description w.
        (Inr \<lparr>issue_key = ''PROJ-1'', issue_url = None\<rparr>, w)),
      CreateIssue = (\<lambda>request w.
        (if w = 1 then Inl \<lparr>kind = Network, reason = ''timed out''\<rparr>
         else Inr \<lparr>issue_key = ''PROJ-'' @ decimal (w + 2), issue_url = None\<rparr>,
         Suc w))\<rparr>"

definition locked_client :: "nat ticket_client" where
  "locked_client =
     \<lparr>CreateGroup = (\<lambda>name description w.
        (Inl \<lparr>kind = Authentication, reason = ''credentials rejected''\<rparr>, w)),
      CreateIssue = (\<lambda>request w.
        (Inr \<lparr>issue_key = ''PROJ-'' @ decimal (w + 2), issue_url = None\<rparr>, Suc w))\<rparr>"

definition three_stories :: "story_data list" where
  "three_stories =
     [\<lparr>story = Some ''As a user, I want to log in'', acceptance_criteria = Some [''a'', ''b'']\<rparr>,
      \<lparr>story = Some ''As an admin, I want reports'', acceptance_criteria = Some []\<rparr>,
      \<lparr>story = Some ''As a guest, I want to browse'', acceptance_criteria = None\<rparr>]"

section \<open>Properties of the estimator\<close>

text \<open>
  Claim C1. For a story with \<open>c\<close> acceptance criteria and a narrative of \<open>l\<close> characters the
  estimate is \<open>min 13 (3 + bucket c + bonus l)\<close>: the bucket is 0, 2, 4 or 6 for at most 2,
  3 to 4, 5 to 6 and at least 7 criteria; the bonus is 0 up to 200 characters, 1 above 200
  and up to 400, and 2 above 400.
\<close>

theorem estimate_story_points_formula:
  "estimate_story_points sd =
     min 13 (3 + bucket (int (length (get_criteria sd))) + bonus (int (length (get_story sd))))"
  by (simp add: estimate_story_points_def bucket_def bonus_def Let_def)

text \<open>A narrative of 450 characters with 8 criteria: \<open>min 13 (3 + 6 + 2) = 11\<close>.\<close>

theorem estimate_story_points_formula_witness:
  "estimate_story_points
     \<lparr>story = Some (replicate 450 CHR ''a''), acceptance_criteria = Some (replicate 8 ''ok'')\<rparr> = 11"
  using estimate_story_points_formula
    [of "\<lparr>story = Some (replicate 450 CHR ''a''), acceptance_criteria = Some (replicate 8 ''ok'')\<rparr>"]
  by (simp add: bucket_def bonus_def get_story_def get_criteria_def)

text \<open>
  Claim C5. The estimate lies between 3 and 13, and it does not decrease when the number
  of criteria grows with the narrative length fixed, nor when the narrative grows with the
  number of criteria fixed.
\<close>

theorem estimate_story_points_range_mono:
  "3 \<le> estimate_story_points sd \<and> estimate_story_points sd \<le> 13 \<and>
   (length (get_story a) = length (get_story b) \<and>
      length (get_criteria a) \<le> length (get_criteria b)
      \<longrightarrow> estimate_story_points a \<le> estimate_story_points b) \<and>
   (length (get_criteria a) = length (get_criteria b) \<and>
      length (get_story a) \<le> length (get_story b)
      \<longrightarrow> estimate_story_points a \<le> estimate_story_points b)"
  by (simp add: estimate_story_points_def Let_def)

text \<open>
  Two stories with 4 criteria each, of 200 and of 201 characters: the hypothesis of the
  second monotonicity statement holds and the estimates are 5 and 6.
\<close>

theorem estimate_story_points_range_mono_witness:
  "length (get_criteria \<lparr>story = Some (replicate 200 CHR ''a''),
                          acceptance_criteria = Some (replicate 4 ''ok'')\<rparr>)
     = length (get_criteria \<lparr>story = Some (replicate 201 CHR ''a''),
                              acceptance_criteria = Some (replicate 4 ''ok'')\<rparr>) \<and>
   length (get_story \<lparr>story = Some (replicate 200 CHR ''a''),
                       acceptance_criteria = Some (replicate 4 ''ok'')\<rparr>)
     \<le> length (get_story \<lparr>story = Some (replicate 201 CHR ''a''),
                            acceptance_criteria = Some (replicate 4 ''ok'')\<rparr>) \<and>
   estimate_story_points \<lparr>story = Some (replicate 200 CHR ''a''),
                           acceptance_criteria = Some (replicate 4 ''ok'')\<rparr>
     \<le> estimate_story_points \<lparr>story = Some (replicate 201 CHR ''a''),
                                acceptance_criteria = Some (replicate 4 ''ok'')\<rparr>"
  using estimate_story_points_range_mono
    [of _ "\<lparr>story = Some (replicate 200 CHR ''a''), acceptance_criteria = Some (replicate 4 ''ok'')\<rparr>"
          "\<lparr>story = Some (replicate 201 CHR ''a''), acceptance_criteria = Some (replicate 4 ''ok'')\<rparr>"]
  by (simp add: get_story_def get_criteria_def)


section \<open>Properties of the classifier\<close>

lemma sublist_map_iff:
  "sublist w (map f s) \<longleftrightarrow> (\<exists>u. sublist u s \<and> map f u = w)"
proof
  assume "sublist w (map f s)"
  then obtain ps ss where "map f s = ps @ w @ ss" by (auto simp: sublist_def)
  then have "\<exists>us vs. s = us @ vs \<and> ps = map f us \<and> w @ ss = map f vs"
    by (simp only: map_eq_append_conv)
  then obtain us vs where s: "s = us @ vs" and vs: "map f vs = w @ ss"
    by auto
  from vs have "\<exists>u q. vs = u @ q \<and> w = map f u \<and> ss = map f q"
    by (simp only: map_eq_append_conv)
  then obtain u q where "vs = u @ q" "map f u = w"
    by auto
  with s have "s = us @ u @ q" "map f u = w" by simp_all
  then show "\<exists>u. sublist u s \<and> map f u = w" by (auto simp: sublist_def)
next
  assume "\<exists>u. sublist u s \<and> map f u = w"
  then obtain u ps ss where "s = ps @ u @ ss" "map f u = w"
    by (auto simp: sublist_def)
  then have "map f s = map f ps @ w @ map f ss" by simp
  then show "sublist w (map f s)" unfolding sublist_def by blast
qed

lemma contains_ignoring_case_iff:
  "contains_ignoring_case text term \<longleftrightarrow> (\<exists>u. sublist u text \<and> lower u = lower term)"
  by (simp add: contains_ignoring_case_def lower_def sublist_map_iff)

lemma urgent_words_lower: "\<forall>w\<in>set urgent_words. lower w = w"
  unfolding urgent_words_def by code_simp

lemma determine_priority_with_lower:
  assumes "\<forall>w\<in>set urgent. lower w = w"
  shows "determine_priority_with urgent sd =
           (if \<exists>w\<in>set urgent. contains_ignoring_case (get_story sd) w then ''High'' else ''Medium'')"
  using assms by (simp add: determine_priority_with_def list_ex_iff contains_ignoring_case_def str_in_def)

text \<open>
  Claim C6. The priority is \<^verbatim>\<open>Medium\<close> unless the narrative contains, letter case
  ignored, one of the urgent words, and then it is \<^verbatim>\<open>High\<close>, which ranks above
  \<^verbatim>\<open>Medium\<close>; with an empty word list every story is \<^verbatim>\<open>Medium\<close>. The function is
  total: it has a value on every story record.
\<close>

theorem determine_priority_spec:
  "determine_priority sd =
     (if \<exists>w\<in>set urgent_words. contains_ignoring_case (get_story sd) w then ''High'' else ''Medium'') \<and>
   priority_rank ''Medium'' < priority_rank ''High'' \<and>
   determine_priority_with [] sd = ''Medium''"
  using determine_priority_with_lower [OF urgent_words_lower, of sd]
  by (simp add: determine_priority_def priority_rank_def determine_priority_with_def)

text \<open>A story that names a password in capitals, and one with no urgent word.\<close>

theorem determine_priority_spec_witness:
  "determine_priority \<lparr>story = Some ''Reset my PASSWORD'', acceptance_criteria = None\<rparr> = ''High'' \<and>
   determine_priority \<lparr>story = Some ''Export a report'', acceptance_criteria = None\<rparr> = ''Medium''"
  using determine_priority_spec [of "\<lparr>story = Some ''Reset my PASSWORD'', acceptance_criteria = None\<rparr>"]
    determine_priority_spec [of "\<lparr>story = Some ''Export a report'', acceptance_criteria = None\<rparr>"]
  by code_simp

lemma component_table_lower: "\<forall>e\<in>set component_table. lower (fst e) = fst e"
  unfolding component_table_def by code_simp

lemma determine_component_first_match:
  "determine_component sd = first_match_label component_table ''General'' (get_story sd)"
proof -
  have "\<And>w. w \<in> fst ` set component_table \<Longrightarrow>
          contains_ignoring_case (get_story sd) w = str_in w (lower (get_story sd))"
    using component_table_lower by (auto simp: contains_ignoring_case_def str_in_def)
  then show ?thesis
    by (simp add: determine_component_def component_table_def Let_def)
qed

lemma first_match_label_none:
  "\<forall>e\<in>set tbl. \<not> contains_ignoring_case text (fst e) \<Longrightarrow> first_match_label tbl dflt text = dflt"
  by (induction tbl) auto

lemma first_match_label_first:
  "i < length tbl \<Longrightarrow> contains_ignoring_case text (fst (tbl ! i)) \<Longrightarrow>
   \<forall>j<i. \<not> contains_ignoring_case text (fst (tbl ! j)) \<Longrightarrow>
   first_match_label tbl dflt text = snd (tbl ! i)"
proof (induction tbl arbitrary: i)
  case Nil
  then show ?case by simp
next
  case (Cons e rest)
  obtain k l where e: "e = (k, l)" by (cases e)
  show ?case
  proof (cases i)
    case 0
    with Cons.prems e show ?thesis by simp
  next
    case (Suc n)
    have "\<forall>j<n. \<not> contains_ignoring_case text (fst (rest ! j))"
    proof (intro allI impI)
      fix j assume "j < n"
      then have "Suc j < i" using Suc by simp
      with Cons.prems have "\<not> contains_ignoring_case text (fst ((e # rest) ! Suc j))" by blast
      then show "\<not> contains_ignoring_case text (fst (rest ! j))" by simp
    qed
    moreover have "n < length rest" "contains_ignoring_case text (fst (rest ! n))"
      using Cons.prems Suc by simp_all
    ultimately have "first_match_label rest dflt text = snd (rest ! n)"
      using Cons.IH [of n] by blast
    moreover have "\<not> contains_ignoring_case text (fst ((e # rest) ! 0))"
      using Cons.prems Suc by blast
    ultimately show ?thesis using e Suc by simp
  qed
qed

text \<open>
  Claim C7. The component is the label of the first entry of the keyword table, in table
  order, whose keyword the narrative contains, and \<^verbatim>\<open>General\<close> when there is none: an
  entry that matches with no matching entry before it decides the result, whatever matches
  after it.
\<close>

theorem determine_component_spec:
  "determine_component sd = first_match_label component_table ''General'' (get_story sd) \<and>
   ((\<forall>e\<in>set component_table. \<not> contains_ignoring_case (get_story sd) (fst e))
      \<longrightarrow> determine_component sd = ''General'') \<and>
   (i < length component_table \<and>
    contains_ignoring_case (get_story sd) (fst (component_table ! i)) \<and>
    (\<forall>j<i. \<not> contains_ignoring_case (get_story sd) (fst (component_table ! j)))
      \<longrightarrow> determine_component sd = snd (component_table ! i))"
  using first_match_label_none [of component_table "get_story sd" "''General''"]
    first_match_label_first [of i component_table "get_story sd" "''General''"]
  by (simp add: determine_component_first_match)


text \<open>
  The narrative below contains \<^verbatim>\<open>user\<close> (entry 1), \<^verbatim>\<open>data\<close> (entry 5) and \<^verbatim>\<open>api\<close>
  (entry 7) and not \<^verbatim>\<open>login\<close> (entry 0): entry 1 decides.
\<close>

theorem determine_component_spec_witness:
  "1 < length component_table \<and>
   contains_ignoring_case (get_story \<lparr>story = Some ''User DATA api'', acceptance_criteria = None\<rparr>)
     (fst (component_table ! 1)) \<and>
   contains_ignoring_case (get_story \<lparr>story = Some ''User DATA api'', acceptance_criteria = None\<rparr>)
     (fst (component_table ! 5)) \<and>
   \<not> contains_ignoring_case
       (get_story \<lparr>story = Some ''User DATA api'', acceptance_criteria = None\<rparr>)
       (fst (component_table ! 0)) \<and>
   determine_component \<lparr>story = Some ''User DATA api'', acceptance_criteria = None\<rparr>
     = ''User Management''"
proof -
  let ?sd = "\<lparr>story = Some ''User DATA api'', acceptance_criteria = None\<rparr>"
  have a: "1 < length component_table"
    by code_simp
  have b: "contains_ignoring_case (get_story ?sd) (fst (component_table ! 1))"
    by code_simp
  have b': "contains_ignoring_case (get_story ?sd) (fst (component_table ! 5))"
    by code_simp
  have c0: "\<not> contains_ignoring_case (get_story ?sd) (fst (component_table ! 0))"
    by code_simp
  then have c: "\<forall>j<1. \<not> contains_ignoring_case (get_story ?sd) (fst (component_table ! j))"
    by simp
  have d: "snd (component_table ! 1) = ''User Management''"
    by code_simp
  from determine_component_spec [of ?sd 1] a b c
  have "determine_component ?sd = snd (component_table ! 1)"
    by blast
  also note d
  finally have "determine_component ?sd = ''User Management''" .
  with a b b' c0 show ?thesis
    by blast
qed

section \<open>Properties of the front end\<close>

subsection \<open>Normalising the story list\<close>

lemma isNewFormat_strings:
  "us \<noteq> [] \<Longrightarrow> \<forall>x\<in>set us. \<exists>s. x = JString s \<Longrightarrow> \<not> isNewFormat (Some us)"
  by (cases us) (auto simp: isNewFormat_def)

lemma isNewFormat_objects:
  "us \<noteq> [] \<Longrightarrow> \<forall>x\<in>set us. \<exists>fs. x = JObject fs \<Longrightarrow> isNewFormat (Some us)"
  by (cases us) (auto simp: isNewFormat_def)

text \<open>
  Claim C10. A non-empty list of plain strings becomes the list of records
  \<^verbatim>\<open>{ story: <the string>, acceptance_criteria: [] }\<close>, in the same order, so each record
  handed to the export panel has an \<^verbatim>\<open>acceptance_criteria\<close> array and the string as its
  \<^verbatim>\<open>story\<close>; a non-empty list of objects is handed on as it is.
\<close>

theorem user_story_list_stories_spec:
  "(us \<noteq> [] \<and> (\<forall>x\<in>set us. \<exists>s. x = JString s) \<longrightarrow>
      user_story_list_stories (Some us)
        = Inr (map (\<lambda>s. JObject [(''story'', s), (''acceptance_criteria'', JArray [])]) us) \<and>
      (\<forall>rs. user_story_list_stories (Some us) = Inr rs \<longrightarrow>
         length rs = length us \<and>
         (\<forall>i<length us. get_prop (rs ! i) ''acceptance_criteria'' = Inr (JArray []) \<and>
                        get_prop (rs ! i) ''story'' = Inr (us ! i)))) \<and>
   (us \<noteq> [] \<and> (\<forall>x\<in>set us. \<exists>fs. x = JObject fs) \<longrightarrow>
      user_story_list_stories (Some us) = Inr us)"
proof (intro conjI impI)
  assume strings: "us \<noteq> [] \<and> (\<forall>x\<in>set us. \<exists>s. x = JString s)"
  then have old: "\<not> isNewFormat (Some us)"
    using isNewFormat_strings by blast
  then show eq: "user_story_list_stories (Some us)
        = Inr (map (\<lambda>s. JObject [(''story'', s), (''acceptance_criteria'', JArray [])]) us)"
    by (simp add: user_story_list_stories_def legacy_story_def)
  show "\<forall>rs. user_story_list_stories (Some us) = Inr rs \<longrightarrow>
         length rs = length us \<and>
         (\<forall>i<length us. get_prop (rs ! i) ''acceptance_criteria'' = Inr (JArray []) \<and>
                        get_prop (rs ! i) ''story'' = Inr (us ! i))"
    using eq by auto
next
  assume "us \<noteq> [] \<and> (\<forall>x\<in>set us. \<exists>fs. x = JObject fs)"
  then have "isNewFormat (Some us)"
    using isNewFormat_objects by blast
  then show "user_story_list_stories (Some us) = Inr us"
    by (simp add: user_story_list_stories_def)
qed

text \<open>Two stories in the old format, and one in the new format.\<close>

theorem user_story_list_stories_spec_witness:
  "user_story_list_stories (Some [JString ''As a user'', JString ''As an admin''])
     = Inr [JObject [(''story'', JString ''As a user''), (''acceptance_criteria'', JArray [])],
            JObject [(''story'', JString ''As an admin''), (''acceptance_criteria'', JArray [])]] \<and>
   user_story_list_stories (Some [JObject [(''story'', JString ''As a user'')]])
     = Inr [JObject [(''story'', JString ''As a user'')]]"
  using user_story_list_stories_spec [of "[JString ''As a user'', JString ''As an admin'']"]
    user_story_list_stories_spec [of "[JObject [(''story'', JString ''As a user'')]]"]
  by simp

subsection \<open>Validation in the export panel\<close>

lemma api_post_sent:
  "sent (snd (api_post transport url body nw)) = sent nw @ [(url, body)]"
  by (simp add: api_post_def Let_def split: prod.splits sum.splits)

lemma handleExport_posts:
  assumes "selectedProject panel \<noteq> []" and "userStories = Some us" and "us \<noteq> []"
  shows "sent (fst (snd (handleExport transport cb userStories panel nw)))
           = sent nw @ [(''/jira/export-stories'',
                         \<lparr>req_stories = us, project_key = selectedProject panel,
                          create_epic = createEpic panel, epic_name = epicName panel\<rparr>)]"
proof -
  obtain outcome nw' where run:
    "exportStories transport us (selectedProject panel) (Some (createEpic panel))
       (Some (epicName panel)) nw = (outcome, nw')"
    by (cases "exportStories transport us (selectedProject panel) (Some (createEpic panel))
                 (Some (epicName panel)) nw")
  then have "sent nw' = sent nw @ [(''/jira/export-stories'',
                         \<lparr>req_stories = us, project_key = selectedProject panel,
                          create_epic = createEpic panel, epic_name = epicName panel\<rparr>)]"
    using api_post_sent [of transport "''/jira/export-stories''"
        "export_stories_body us (selectedProject panel) (Some (createEpic panel))
           (Some (epicName panel))" nw]
    by (simp add: exportStories_def export_stories_body_def)
  with run assms show ?thesis
    by (cases outcome) (simp_all add: handleExport_def Let_def del: decimal_onto.simps)
qed

text \<open>
  Claim C4. When no project is selected or there are no stories, \<^verbatim>\<open>handleExport\<close> only
  sets the panel's error message and returns: the network is as it was, so no request was
  sent, and the completion callback is not called.
\<close>

theorem handleExport_validation:
  assumes "selectedProject panel = [] \<or> userStories = None \<or> userStories = Some []"
  shows "handleExport transport cb userStories panel nw
           = (panel\<lparr>panel_error :=
                      (if selectedProject panel = [] then ''Please select a Jira project''
                       else ''No user stories to export'')\<rparr>, nw, [])"
  using assms by (auto simp: handleExport_def)

text \<open>An empty story list with the project \<^verbatim>\<open>PROJ\<close> selected.\<close>

theorem handleExport_validation_witness:
  "handleExport
     (\<lambda>url body n. (Inr \<lparr>answer_total_exported = 0, answer_epic_key = None\<rparr>, Suc n))
     True (Some ([] :: js_value list))
     \<lparr>selectedProject = ''PROJ'', epicName = ''User Stories'', createEpic = True,
      exporting = False, panel_error = [], panel_success = []\<rparr>
     \<lparr>server = 0 :: nat, sent = []\<rparr>
   = (\<lparr>selectedProject = ''PROJ'', epicName = ''User Stories'', createEpic = True,
       exporting = False, panel_error = ''No user stories to export'', panel_success = []\<rparr>,
      \<lparr>server = 0, sent = []\<rparr>, [])"
  using handleExport_validation
    [of "\<lparr>selectedProject = ''PROJ'', epicName = ''User Stories'', createEpic = True,
          exporting = False, panel_error = [], panel_success = []\<rparr>"
        "Some ([] :: js_value list)"
        "\<lambda>url body n. (Inr \<lparr>answer_total_exported = 0, answer_epic_key = None\<rparr>, Suc n)"
        True "\<lparr>server = 0 :: nat, sent = []\<rparr>"]
  by simp

subsection \<open>The response interceptor\<close>

text \<open>
  Claim C9, as amended. The interceptor turns a failure into an \<^verbatim>\<open>Error\<close> that carries
  a message and nothing else. When the server answered with an object whose \<^verbatim>\<open>detail\<close>
  is a non-empty string, that string is the message, whatever the status; when the object
  has no \<^verbatim>\<open>detail\<close>, the message is \<^verbatim>\<open>Bad request\<close> for 400, \<^verbatim>\<open>Resource not found\<close>
  for 404, \<^verbatim>\<open>Internal server error\<close> for 500 and \<^verbatim>\<open>HTTP <status> error\<close> otherwise.
  When no response came, the message is fixed if a request was sent, and else it is the
  failure's own message, or a fixed one when that is empty.
\<close>

theorem response_interceptor_messages:
  "(error_response err = Some resp \<and> response_data resp = JObject fs \<and>
      map_of fs ''detail'' = Some (JString m) \<and> m \<noteq> []
      \<longrightarrow> response_interceptor err = Error m) \<and>
   (error_response err = Some resp \<and> response_data resp = JObject fs \<and>
      map_of fs ''detail'' = None
      \<longrightarrow> response_interceptor err =
            Error (if status_code resp = 400 then ''Bad request''
                   else if status_code resp = 404 then ''Resource not found''
                   else if status_code resp = 500 then ''Internal server error''
                   else ''HTTP '' @ decimal (status_code resp) @ '' error'')) \<and>
   (error_response err = None \<and> error_request err
      \<longrightarrow> response_interceptor err
            = Error ''No response from server. Please check your connection.'') \<and>
   (error_response err = None \<and> \<not> error_request err
      \<longrightarrow> response_interceptor err
            = Error (if error_message err \<noteq> [] then error_message err
                     else ''An unexpected error occurred''))"
  by (simp add: response_interceptor_def js_or_def del: decimal_onto.simps)

text \<open>
  A 403 with the server's message, a 401 without one, a timeout, and a failure before any
  request was sent.
\<close>

theorem response_interceptor_messages_witness:
  "response_interceptor
     \<lparr>error_response = Some \<lparr>status_code = 403,
         response_data = JObject [(''detail'', JString ''Jira service not available'')]\<rparr>,
      error_request = True, error_message = ''Request failed with status code 403''\<rparr>
     = Error ''Jira service not available'' \<and>
   response_interceptor
     \<lparr>error_response = Some \<lparr>status_code = 401, response_data = JObject []\<rparr>,
      error_request = True, error_message = ''Request failed with status code 401''\<rparr>
     = Error ''HTTP 401 error'' \<and>
   response_interceptor
     \<lparr>error_response = None, error_request = True,
      error_message = ''timeout of 30000ms exceeded''\<rparr>
     = Error ''No response from server. Please check your connection.'' \<and>
   response_interceptor
     \<lparr>error_response = None, error_request = False, error_message = ''canceled''\<rparr>
     = Error ''canceled''"
proof -
  have digits: "decimal 401 = ''401''"
    by code_simp
  show ?thesis
    using response_interceptor_messages
      [of "\<lparr>error_response = Some \<lparr>status_code = 403,
               response_data = JObject [(''detail'', JString ''Jira service not available'')]\<rparr>,
             error_request = True, error_message = ''Request failed with status code 403''\<rparr>"
          "\<lparr>status_code = 403,
             response_data = JObject [(''detail'', JString ''Jira service not available'')]\<rparr>"
          "[(''detail'', JString ''Jira service not available'')]"
          "''Jira service not available''"]
      response_interceptor_messages
      [of "\<lparr>error_response = Some \<lparr>status_code = 401, response_data = JObject []\<rparr>,
             error_request = True, error_message = ''Request failed with status code 401''\<rparr>"
          "\<lparr>status_code = 401, response_data = JObject []\<rparr>" "[]"]
      response_interceptor_messages
      [of "\<lparr>error_response = None, error_request = True,
             error_message = ''timeout of 30000ms exceeded''\<rparr>"]
      response_interceptor_messages
      [of "\<lparr>error_response = None, error_request = False, error_message = ''canceled''\<rparr>"]
    by (simp add: digits del: decimal_onto.simps)
qed

text \<open>
  Claim C9 as stated fails: what the interceptor throws has no kind. A 400 and a 404 that
  carry the same \<^verbatim>\<open>detail\<close> are thrown as the same \<^verbatim>\<open>Error\<close>, so nothing that reads the
  thrown value can tell a validation failure from a missing resource.
\<close>

theorem response_interceptor_kind_counterexample:
  "response_interceptor
     \<lparr>error_response = Some \<lparr>status_code = 400,
         response_data = JObject [(''detail'', JString ''Project key PROJ is not valid'')]\<rparr>,
      error_request = True, error_message = ''Request failed with status code 400''\<rparr>
   = response_interceptor
     \<lparr>error_response = Some \<lparr>status_code = 404,
         response_data = JObject [(''detail'', JString ''Project key PROJ is not valid'')]\<rparr>,
      error_request = True, error_message = ''Request failed with status code 404''\<rparr> \<and>
   \<not> (\<exists>kind_of.
        kind_of (response_interceptor
          \<lparr>error_response = Some \<lparr>status_code = 400,
              response_data = JObject [(''detail'', JString ''Project key PROJ is not valid'')]\<rparr>,
           error_request = True, error_message = ''Request failed with status code 400''\<rparr>)
          = Validation \<and>
        kind_of (response_interceptor
          \<lparr>error_response = Some \<lparr>status_code = 404,
              response_data = JObject [(''detail'', JString ''Project key PROJ is not valid'')]\<rparr>,
           error_request = True, error_message = ''Request failed with status code 404''\<rparr>)
          = NotFound)"
  by (simp add: response_interceptor_def js_or_def del: decimal_onto.simps)

section \<open>Properties of the export orchestrator\<close>

subsection \<open>The per-story loop\<close>

lemma export_each_length:
  "length (fst (export_each client grp i stories tr)) = length stories"
  by (induction stories arbitrary: i tr) (simp_all add: Let_def case_prod_beta)

lemma export_each_index:
  "j < length stories \<Longrightarrow>
   outcome_index (fst (export_each client grp i stories tr) ! j) = i + j"
proof (induction stories arbitrary: i j tr)
  case Nil
  then show ?case by simp
next
  case (Cons sd rest)
  show ?case
  proof (cases j)
    case 0
    then show ?thesis
      by (simp add: Let_def case_prod_beta split: sum.splits)
  next
    case (Suc n)
    with Cons.prems have "n < length rest" by simp
    then have "\<And>tr'. outcome_index (fst (export_each client grp (Suc i) rest tr') ! n) = Suc i + n"
      using Cons.IH by blast
    with Suc show ?thesis
      by (simp add: Let_def case_prod_beta)
  qed
qed

lemma export_each_calls:
  "calls (snd (export_each client grp i stories tr))
     = calls tr @ map (\<lambda>sd. CreateIssueCall (issue_request_of grp sd)) stories"
  by (induction stories arbitrary: i tr) (simp_all add: Let_def case_prod_beta)

lemma aggregate_counts:
  "total_exported (aggregate grp outs) + total_failed (aggregate grp outs) = length outs"
  by (simp add: aggregate_def sum_length_filter_compl)

lemma aggregate_status: "result_status (aggregate grp outs) \<noteq> GroupFailed"
  by (simp add: aggregate_def)

lemma no_new_group_calls:
  "filter is_create_group (cs @ map (\<lambda>sd. CreateIssueCall (issue_request_of grp sd)) stories)
     = filter is_create_group cs"
  by (induction stories) simp_all

lemma Export_validation:
  assumes "projectKey = [] \<or> stories = []"
  shows "\<exists>err. Export client stories projectKey groupSpec tr = (Inl err, tr)
               \<and> kind err = Validation"
  using assms by (auto simp: Export_def)

lemma export_each_nth:
  "j < length stories \<Longrightarrow>
   fst (export_each client grp i stories tr) ! j
     = outcome_of (i + j)
         (fst (CreateIssue client (issue_request_of grp (stories ! j))
                 (world_after_issues client grp (take j stories) (world tr))))"
proof (induction stories arbitrary: i j tr)
  case Nil
  then show ?case by simp
next
  case (Cons sd rest)
  show ?case
  proof (cases j)
    case 0
    then show ?thesis
      by (simp add: Let_def case_prod_beta outcome_of_def)
  next
    case (Suc n)
    with Cons.prems have "n < length rest" by simp
    then have "\<And>tr'. fst (export_each client grp (Suc i) rest tr') ! n
        = outcome_of (Suc i + n)
            (fst (CreateIssue client (issue_request_of grp (rest ! n))
                    (world_after_issues client grp (take n rest) (world tr'))))"
      using Cons.IH by blast
    with Suc show ?thesis
      by (simp add: Let_def case_prod_beta)
  qed
qed

lemma export_each_world:
  "world (snd (export_each client grp i stories tr))
     = world_after_issues client grp stories (world tr)"
  by (induction stories arbitrary: i tr) (simp_all add: Let_def case_prod_beta)

subsection \<open>Outcomes and input stories\<close>

lemma Export_reaches_stories:
  assumes "projectKey \<noteq> []" and "stories \<noteq> []"
    and "\<not> group_step_fails client stories groupSpec tr"
  shows "\<exists>tr0. Export client stories projectKey groupSpec tr
           = (Inr (aggregate (group_ref_after client stories groupSpec tr)
                    (fst (export_each client (group_ref_after client stories groupSpec tr)
                            0 stories tr0))),
              snd (export_each client (group_ref_after client stories groupSpec tr)
                     0 stories tr0)) \<and>
           filter is_create_issue (calls tr0) = filter is_create_issue (calls tr) \<and>
           world tr0 = world_after_group client stories groupSpec tr"
proof (cases groupSpec)
  case None
  with assms(1,2) have "Export client stories projectKey groupSpec tr
      = (Inr (aggregate None (fst (export_each client None 0 stories tr))),
         snd (export_each client None 0 stories tr))"
    by (simp add: Export_def case_prod_beta)
  with None show ?thesis
    by (auto simp: group_ref_after_def world_after_group_def)
next
  case (Some gs)
  show ?thesis
  proof (cases "create gs")
    case False
    with Some assms(1,2) have "Export client stories projectKey groupSpec tr
        = (Inr (aggregate None (fst (export_each client None 0 stories tr))),
           snd (export_each client None 0 stories tr))"
      by (simp add: Export_def case_prod_beta)
    with Some False show ?thesis
      by (auto simp: group_ref_after_def world_after_group_def)
  next
    case True
    obtain answer world' where step:
      "CreateGroup client (group_name gs) (group_description (length stories)) (world tr)
         = (answer, world')"
      by (cases "CreateGroup client (group_name gs) (group_description (length stories)) (world tr)")
    with assms(3) Some True obtain ref where ref: "answer = Inr ref"
      by (cases answer) (simp_all add: group_step_fails_def)
    let ?tr0 = "\<lparr>world = world',
                 calls = calls tr @ [CreateGroupCall (group_name gs)
                                      (group_description (length stories))]\<rparr>"
    from ref step Some True assms(1,2) have
      "Export client stories projectKey groupSpec tr
         = (Inr (aggregate (Some ref) (fst (export_each client (Some ref) 0 stories ?tr0))),
            snd (export_each client (Some ref) 0 stories ?tr0))"
      by (simp add: Export_def Let_def case_prod_beta)
    moreover have "filter is_create_issue (calls ?tr0) = filter is_create_issue (calls tr)"
      by simp
    moreover have "group_ref_after client stories groupSpec tr = Some ref"
      using ref step Some True by (simp add: group_ref_after_def)
    moreover have "world ?tr0 = world_after_group client stories groupSpec tr"
      using step Some True by (simp add: world_after_group_def)
    ultimately show ?thesis
      by metis
  qed
qed

lemma all_issue_calls:
  "filter is_create_issue (map (\<lambda>sd. CreateIssueCall (issue_request_of grp sd)) stories)
     = map (\<lambda>sd. CreateIssueCall (issue_request_of grp sd)) stories"
  by (induction stories) simp_all

text \<open>
  Claim C2. An export with a project key, at least one story and no failure of the group
  step returns a result with one outcome per input story, whatever number of creations
  failed. The outcome at position \<open>i\<close> carries the index \<open>i\<close> and is the answer to the
  \<open>CreateIssue\<close> call made for story \<open>i\<close>, in the state in which the tracker is after
  the group step and the calls for the stories before it; the issues are requested one per
  story, in input order. The two counts are the numbers of successes and of failures among
  the outcomes, so they add up to the number of stories, and the status is \<open>AllSucceeded\<close>
  when every outcome is a success and \<open>PartialFailure\<close> otherwise.
\<close>

theorem Export_outcomes_aligned:
  assumes "projectKey \<noteq> []" and "stories \<noteq> []"
    and "\<not> group_step_fails client stories groupSpec tr"
  shows "\<exists>res tr'. Export client stories projectKey groupSpec tr = (Inr res, tr') \<and>
           length (outcomes res) = length stories \<and>
           (\<forall>i<length stories. outcome_index (outcomes res ! i) = i) \<and>
           total_exported res + total_failed res = length stories \<and>
           result_status res \<noteq> GroupFailed \<and>
           filter is_create_issue (calls tr')
             = filter is_create_issue (calls tr)
               @ map (\<lambda>sd. CreateIssueCall (issue_request_of (result_group res) sd)) stories \<and>
           result_group res = group_ref_after client stories groupSpec tr \<and>
           (\<forall>i<length stories.
              outcomes res ! i
                = outcome_of i
                    (fst (CreateIssue client (issue_request_of (result_group res) (stories ! i))
                            (world_after_issues client (result_group res) (take i stories)
                               (world_after_group client stories groupSpec tr))))) \<and>
           world tr' = world_after_issues client (result_group res) stories
                         (world_after_group client stories groupSpec tr) \<and>
           total_exported res = length (filter is_exported (outcomes res)) \<and>
           total_failed res = length (filter (\<lambda>out. \<not> is_exported out) (outcomes res)) \<and>
           result_status res
             = (if list_all is_exported (outcomes res) then AllSucceeded else PartialFailure)"
proof -
  define grp where "grp = group_ref_after client stories groupSpec tr"
  define w0 where "w0 = world_after_group client stories groupSpec tr"
  obtain tr0 where run:
    "Export client stories projectKey groupSpec tr
       = (Inr (aggregate grp (fst (export_each client grp 0 stories tr0))),
          snd (export_each client grp 0 stories tr0))"
    and before: "filter is_create_issue (calls tr0) = filter is_create_issue (calls tr)"
    and start: "world tr0 = w0"
    using Export_reaches_stories [OF assms] unfolding grp_def w0_def by blast
  define outs where "outs = fst (export_each client grp 0 stories tr0)"
  define res where "res = aggregate grp outs"
  define tr' where "tr' = snd (export_each client grp 0 stories tr0)"
  have run': "Export client stories projectKey groupSpec tr = (Inr res, tr')"
    using run by (simp add: res_def outs_def tr'_def)
  have outs: "outcomes res = outs" and group: "result_group res = grp"
    by (simp_all add: res_def aggregate_def)
  have len: "length outs = length stories"
    unfolding outs_def by (rule export_each_length)
  have c1: "length (outcomes res) = length stories"
    using outs len by simp
  have c2: "\<forall>i<length stories. outcome_index (outcomes res ! i) = i"
    using export_each_index [of _ stories client grp 0 tr0] by (simp add: outs outs_def)
  have c3: "total_exported res + total_failed res = length stories"
    using aggregate_counts [of grp outs] len by (simp add: res_def)
  have c4: "result_status res \<noteq> GroupFailed"
    unfolding res_def by (rule aggregate_status)
  have c5: "filter is_create_issue (calls tr')
              = filter is_create_issue (calls tr)
                @ map (\<lambda>sd. CreateIssueCall (issue_request_of (result_group res) sd)) stories"
    using before by (simp add: tr'_def group export_each_calls all_issue_calls)
  have c6: "result_group res = group_ref_after client stories groupSpec tr"
    using group by (simp add: grp_def)
  have c7: "\<forall>i<length stories.
              outcomes res ! i
                = outcome_of i
                    (fst (CreateIssue client (issue_request_of (result_group res) (stories ! i))
                            (world_after_issues client (result_group res) (take i stories)
                               (world_after_group client stories groupSpec tr))))"
    using export_each_nth [of _ stories client grp 0 tr0] start
    by (simp add: outs outs_def group w0_def)
  have c8: "world tr' = world_after_issues client (result_group res) stories
                          (world_after_group client stories groupSpec tr)"
    using start by (simp add: tr'_def group export_each_world w0_def)
  have c9: "total_exported res = length (filter is_exported (outcomes res))"
    and c10: "total_failed res = length (filter (\<lambda>out. \<not> is_exported out) (outcomes res))"
    and c11: "result_status res
             = (if list_all is_exported (outcomes res) then AllSucceeded else PartialFailure)"
    by (simp_all add: res_def aggregate_def)
  from run' c1 c2 c3 c4 c5 c6 c7 c8 c9 c10 c11 show ?thesis
    by blast
qed

text \<open>
  Three stories, the group is created, the second issue is rejected with a network error:
  the outcomes are a success at 0, a failure at 1 and a success at 2.
\<close>

theorem Export_outcomes_aligned_witness:
  "''PROJ'' \<noteq> [] \<and> three_stories \<noteq> [] \<and>
   \<not> group_step_fails flaky_client three_stories
       (Some \<lparr>group_name = ''Epic'', create = True\<rparr>) \<lparr>world = 0, calls = []\<rparr> \<and>
   (\<exists>res tr'. Export flaky_client three_stories ''PROJ''
                (Some \<lparr>group_name = ''Epic'', create = True\<rparr>) \<lparr>world = 0, calls = []\<rparr>
                = (Inr res, tr') \<and>
              outcomes res
                = [Exported 0 \<lparr>issue_key = ''PROJ-2'', issue_url = None\<rparr>,
                   Failed 1 Network ''timed out'',
                   Exported 2 \<lparr>issue_key = ''PROJ-4'', issue_url = None\<rparr>] \<and>
              length (outcomes res) = length three_stories \<and>
              total_exported res = 2 \<and> total_failed res = 1 \<and>
              result_status res = PartialFailure)"
proof -
  let ?gs = "Some \<lparr>group_name = ''Epic'', create = True\<rparr>"
  let ?tr = "\<lparr>world = 0 :: nat, calls = []\<rparr>"
  have a: "''PROJ'' \<noteq> []" by simp
  have b: "three_stories \<noteq> []" by (simp add: three_stories_def)
  have c: "\<not> group_step_fails flaky_client three_stories ?gs ?tr"
    by (simp add: group_step_fails_def flaky_client_def)
  obtain res tr' where run: "Export flaky_client three_stories ''PROJ'' ?gs ?tr = (Inr res, tr')"
    and len: "length (outcomes res) = length three_stories"
    using Export_outcomes_aligned [OF a b c] by blast
  have "fst (Export flaky_client three_stories ''PROJ'' ?gs ?tr)
          = Inr \<lparr>result_group = Some \<lparr>issue_key = ''PROJ-1'', issue_url = None\<rparr>,
                 outcomes = [Exported 0 \<lparr>issue_key = ''PROJ-2'', issue_url = None\<rparr>,
                             Failed 1 Network ''timed out'',
                             Exported 2 \<lparr>issue_key = ''PROJ-4'', issue_url = None\<rparr>],
                 total_exported = 2, total_failed = 1, result_status = PartialFailure\<rparr>"
    by code_simp
  with run have "res = \<lparr>result_group = Some \<lparr>issue_key = ''PROJ-1'', issue_url = None\<rparr>,
                 outcomes = [Exported 0 \<lparr>issue_key = ''PROJ-2'', issue_url = None\<rparr>,
                             Failed 1 Network ''timed out'',
                             Exported 2 \<lparr>issue_key = ''PROJ-4'', issue_url = None\<rparr>],
                 total_exported = 2, total_failed = 1, result_status = PartialFailure\<rparr>"
    by simp
  with run len a b c show ?thesis
    by auto
qed

subsection \<open>Failure of the group step\<close>

text \<open>
  Claim C3. When the group spec asks for a group and \<open>CreateGroup\<close> answers with an error,
  the export returns at once: the status is \<open>GroupFailed\<close>, there are no outcomes and no
  group reference, and the only call made is the \<open>CreateGroup\<close> call, so no issue is
  created for any story.
\<close>

theorem Export_group_failed:
  assumes "projectKey \<noteq> []" and "stories \<noteq> []"
    and "groupSpec = Some gs" and "create gs"
    and "CreateGroup client (group_name gs) (group_description (length stories)) (world tr)
           = (Inl err, world')"
  shows "Export client stories projectKey groupSpec tr
           = (Inr \<lparr>result_group = None, outcomes = [], total_exported = 0, total_failed = 0,
                   result_status = GroupFailed\<rparr>,
              \<lparr>world = world',
               calls = calls tr
                 @ [CreateGroupCall (group_name gs) (group_description (length stories))]\<rparr>) \<and>
         filter is_create_issue (calls (snd (Export client stories projectKey groupSpec tr)))
           = filter is_create_issue (calls tr)"
  using assms by (simp add: Export_def Let_def)

text \<open>Three stories and a tracker that rejects the credentials when the group is created.\<close>

theorem Export_group_failed_witness:
  "Export locked_client three_stories ''PROJ'' (Some \<lparr>group_name = ''Epic'', create = True\<rparr>)
     \<lparr>world = 0, calls = []\<rparr>
   = (Inr \<lparr>result_group = None, outcomes = [], total_exported = 0, total_failed = 0,
           result_status = GroupFailed\<rparr>,
      \<lparr>world = 0, calls = [CreateGroupCall ''Epic'' (group_description 3)]\<rparr>)"
proof -
  have a: "''PROJ'' \<noteq> []" by simp
  have b: "three_stories \<noteq> []" by (simp add: three_stories_def)
  have c: "create \<lparr>group_name = ''Epic'', create = True\<rparr>" by simp
  have d: "CreateGroup locked_client (group_name \<lparr>group_name = ''Epic'', create = True\<rparr>)
             (group_description (length three_stories)) (world \<lparr>world = 0, calls = []\<rparr>)
           = (Inl \<lparr>kind = Authentication, reason = ''credentials rejected''\<rparr>, 0)"
    by (simp add: locked_client_def)
  have e: "length three_stories = 3" by (simp add: three_stories_def)
  show ?thesis
    using Export_group_failed [OF a b refl c d] by (simp add: e)
qed

subsection \<open>Exports without a parent group\<close>

lemma Export_without_group:
  assumes "groupSpec = None \<or> (\<exists>gs. groupSpec = Some gs \<and> \<not> create gs)"
    and "Export client stories projectKey groupSpec tr = (Inr res, tr')"
  shows "result_group res = None \<and>
         filter is_create_group (calls tr') = filter is_create_group (calls tr)"
proof -
  from assms(2) have valid: "projectKey \<noteq> []" "stories \<noteq> []"
    by (auto simp: Export_def split: if_splits)
  have run: "Export client stories projectKey groupSpec tr
               = (Inr (aggregate None (fst (export_each client None 0 stories tr))),
                  snd (export_each client None 0 stories tr))"
    using assms(1) valid by (auto simp: Export_def case_prod_beta)
  have "calls (snd (export_each client None 0 stories tr))
          = calls tr @ map (\<lambda>sd. CreateIssueCall (issue_request_of None sd)) stories"
    by (rule export_each_calls)
  with run assms(2) show ?thesis
    by (auto simp: aggregate_def no_new_group_calls)
qed

lemma export_stories_body_defaults:
  "export_stories_body stories projectKey None None
     = \<lparr>req_stories = stories, project_key = projectKey, create_epic = True,
        epic_name = ''User Stories''\<rparr>"
  by (simp add: export_stories_body_def)

lemma Export_without_spec_runs:
  assumes "projectKey \<noteq> []" and "stories \<noteq> []"
  shows "Export client stories projectKey None tr
           = (Inr (aggregate None (fst (export_each client None 0 stories tr))),
              snd (export_each client None 0 stories tr))"
  using assms by (simp add: Export_def case_prod_beta)

text \<open>
  Claim C8. An export whose request carries no group spec exports the stories without a
  parent group: no \<open>CreateGroup\<close> call is made, whether the export gets to the stories
  or stops at validation, and a result that is returned has no group reference. With a
  project key and at least one story a result is returned, it has one outcome per story,
  and the calls made are the \<open>CreateIssue\<close> calls of the stories, each without a parent.
\<close>

theorem Export_without_group_spec:
  "filter is_create_group (calls (snd (Export client stories projectKey None tr)))
     = filter is_create_group (calls tr) \<and>
   (\<forall>res. fst (Export client stories projectKey None tr) = Inr res
      \<longrightarrow> result_group res = None) \<and>
   (projectKey \<noteq> [] \<and> stories \<noteq> [] \<longrightarrow>
      (\<exists>res tr'. Export client stories projectKey None tr = (Inr res, tr') \<and>
         result_group res = None \<and>
         length (outcomes res) = length stories \<and>
         calls tr' = calls tr
           @ map (\<lambda>sd. CreateIssueCall (issue_request_of None sd)) stories \<and>
         (\<forall>sd\<in>set stories. issue_parent (issue_request_of None sd) = None)))"
proof (cases "projectKey = [] \<or> stories = []")
  case True
  then obtain err where "Export client stories projectKey None tr = (Inl err, tr)"
    using Export_validation by blast
  with True show ?thesis
    by auto
next
  case False
  then have run: "Export client stories projectKey None tr
           = (Inr (aggregate None (fst (export_each client None 0 stories tr))),
              snd (export_each client None 0 stories tr))"
    using Export_without_spec_runs by blast
  have cs: "calls (snd (export_each client None 0 stories tr))
          = calls tr @ map (\<lambda>sd. CreateIssueCall (issue_request_of None sd)) stories"
    by (rule export_each_calls)
  have "filter is_create_group (calls (snd (Export client stories projectKey None tr)))
          = filter is_create_group (calls tr)"
    using run cs by (simp add: no_new_group_calls)
  moreover have "\<forall>res. fst (Export client stories projectKey None tr) = Inr res
      \<longrightarrow> result_group res = None"
    using run by (simp add: aggregate_def)
  moreover have "\<exists>res tr'. Export client stories projectKey None tr = (Inr res, tr') \<and>
         result_group res = None \<and>
         length (outcomes res) = length stories \<and>
         calls tr' = calls tr
           @ map (\<lambda>sd. CreateIssueCall (issue_request_of None sd)) stories \<and>
         (\<forall>sd\<in>set stories. issue_parent (issue_request_of None sd) = None)"
    using run cs by (simp add: aggregate_def export_each_length issue_request_of_def)
  ultimately show ?thesis
    by blast
qed

text \<open>
  One story exported with no group spec: the only call creates the issue, without a
  parent, and the result has no group.
\<close>

theorem Export_without_group_spec_witness:
  "''PROJ'' \<noteq> [] \<and>
   [\<lparr>story = Some ''As a user'', acceptance_criteria = None\<rparr>] \<noteq> [] \<and>
   Export flaky_client [\<lparr>story = Some ''As a user'', acceptance_criteria = None\<rparr>] ''PROJ'' None
     \<lparr>world = 0, calls = []\<rparr>
   = (Inr \<lparr>result_group = None,
           outcomes = [Exported 0 \<lparr>issue_key = ''PROJ-2'', issue_url = None\<rparr>],
           total_exported = 1, total_failed = 0, result_status = AllSucceeded\<rparr>,
      \<lparr>world = 1,
       calls = [CreateIssueCall
                  (issue_request_of None \<lparr>story = Some ''As a user'', acceptance_criteria = None\<rparr>)]\<rparr>) \<and>
   filter is_create_group
     (calls (snd (Export flaky_client
                    [\<lparr>story = Some ''As a user'', acceptance_criteria = None\<rparr>] ''PROJ'' None
                    \<lparr>world = 0, calls = []\<rparr>))) = []"
proof -
  let ?sd = "\<lparr>story = Some ''As a user'', acceptance_criteria = None\<rparr>"
  let ?tr = "\<lparr>world = 0 :: nat, calls = []\<rparr>"
  have run: "Export flaky_client [?sd] ''PROJ'' None ?tr
     = (Inr \<lparr>result_group = None,
             outcomes = [Exported 0 \<lparr>issue_key = ''PROJ-2'', issue_url = None\<rparr>],
             total_exported = 1, total_failed = 0, result_status = AllSucceeded\<rparr>,
        \<lparr>world = 1, calls = [CreateIssueCall (issue_request_of None ?sd)]\<rparr>)"
    by code_simp
  have "filter is_create_group (calls (snd (Export flaky_client [?sd] ''PROJ'' None ?tr)))
          = filter is_create_group (calls ?tr)"
    using Export_without_group_spec [of flaky_client "[?sd]" "''PROJ''" ?tr] by blast
  then have "filter is_create_group (calls (snd (Export flaky_client [?sd] ''PROJ'' None ?tr)))
          = []"
    by simp
  with run show ?thesis
    by simp
qed

end
